theory Spec2Isabelle
  imports Main "HOL-Library.Char_ord" "HOL-Library.List_Lexorder" "HOL-Library.Multiset"
begin

section \<open>Values and exceptions of the Python program\<close>

text \<open>
  The program \<^verbatim>\<open>notes.py\<close> keeps all of its state in JSON files and moves JSON values
  around as Python dicts, lists, strings, numbers, booleans and \<^verbatim>\<open>None\<close>. A dict keeps
  its keys in insertion order, and that order is what \<^verbatim>\<open>items()\<close>, \<^verbatim>\<open>sorted\<close> and
  \<^verbatim>\<open>json.dump\<close> see, so a dict is an association list here; \<^verbatim>\<open>json.load\<close> returns
  dicts whose keys are distinct strings. JSON numbers are the integers (a number with a
  fraction or an exponent is outside this model), and a string is a list of 8-bit
  characters.
\<close>

datatype json =
    JNull
  | JBool bool
  | JInt int
  | JStr string
  | JArr "json list"
  | JObj "(string \<times> json) list"

text \<open>The exceptions the program can meet; \<open>ExternalError\<close> stands for whatever an
  outside service (the completion endpoint, the flashcard application) raises.
  \<open>NotModelled\<close> is not an exception: it marks the one input at which this model does
  not say what the program does (see \<open>sort_notes\<close>).\<close>

datatype py_error =
    KeyError
  | TypeError
  | AttributeError
  | IndexError
  | JSONDecodeError
  | ExternalError
  | NotModelled

text \<open>Truth value of a Python object, as \<^verbatim>\<open>if x\<close> and \<^verbatim>\<open>not x\<close> test it.\<close>

fun truthy :: "json \<Rightarrow> bool" where
  "truthy JNull = False"
| "truthy (JBool b) = b"
| "truthy (JInt n) = (n \<noteq> 0)"
| "truthy (JStr s) = (s \<noteq> [])"
| "truthy (JArr xs) = (xs \<noteq> [])"
| "truthy (JObj kvs) = (kvs \<noteq> [])"

text \<open>\<^verbatim>\<open>d[k] = v\<close> on a dict: an existing key keeps its place, a new key goes last.\<close>

fun dict_set :: "('k \<times> 'v) list \<Rightarrow> 'k \<Rightarrow> 'v \<Rightarrow> ('k \<times> 'v) list" where
  "dict_set [] k v = [(k, v)]"
| "dict_set ((k', v') # kvs) k v =
     (if k' = k then (k', v) # kvs else (k', v') # dict_set kvs k v)"

text \<open>\<^verbatim>\<open>x.get(k)\<close>: only a dict has the method.\<close>

fun py_get :: "json \<Rightarrow> string \<Rightarrow> py_error + json option" where
  "py_get (JObj kvs) k = Inr (map_of kvs k)"
| "py_get _ k = Inl AttributeError"

text \<open>\<^verbatim>\<open>x.get(k, d)\<close>.\<close>

definition py_get_default :: "json \<Rightarrow> string \<Rightarrow> json \<Rightarrow> py_error + json" where
  "py_get_default x k d =
     (case py_get x k of Inl e \<Rightarrow> Inl e | Inr None \<Rightarrow> Inr d | Inr (Some v) \<Rightarrow> Inr v)"

text \<open>\<^verbatim>\<open>x[k]\<close> with a string key \<open>k\<close>: a dict without the key raises \<^verbatim>\<open>KeyError\<close>,
  every other object raises \<^verbatim>\<open>TypeError\<close>.\<close>

fun py_item :: "json \<Rightarrow> string \<Rightarrow> py_error + json" where
  "py_item (JObj kvs) k = (case map_of kvs k of None \<Rightarrow> Inl KeyError | Some v \<Rightarrow> Inr v)"
| "py_item _ k = Inl TypeError"

text \<open>\<^verbatim>\<open>x[0]\<close>: the first element of a list, the first character of a string.\<close>

fun py_item0 :: "json \<Rightarrow> py_error + json" where
  "py_item0 (JArr []) = Inl IndexError"
| "py_item0 (JArr (x # xs)) = Inr x"
| "py_item0 (JStr []) = Inl IndexError"
| "py_item0 (JStr (c # cs)) = Inr (JStr [c])"
| "py_item0 (JObj kvs) = Inl KeyError"
| "py_item0 _ = Inl TypeError"

text \<open>\<^verbatim>\<open>x[k] = v\<close> with a string key: only a dict takes it.\<close>

fun py_setitem :: "json \<Rightarrow> string \<Rightarrow> json \<Rightarrow> py_error + json" where
  "py_setitem (JObj kvs) k v = Inr (JObj (dict_set kvs k v))"
| "py_setitem _ k v = Inl TypeError"

text \<open>\<^verbatim>\<open>x.items()\<close>.\<close>

fun py_items :: "json \<Rightarrow> py_error + (string \<times> json) list" where
  "py_items (JObj kvs) = Inr kvs"
| "py_items _ = Inl AttributeError"

section \<open>Strings\<close>

text \<open>\<^verbatim>\<open>str.lower\<close> on the ASCII letters; every other character is left as it is.\<close>

definition lower_char :: "char \<Rightarrow> char" where
  "lower_char c =
     (if CHR ''A'' \<le> c \<and> c \<le> CHR ''Z'' then char_of (of_char c + (32::nat)) else c)"

definition lower :: "string \<Rightarrow> string" where
  "lower s = map lower_char s"

text \<open>\<^verbatim>\<open>s.replace(a, b)\<close> for one-character \<open>a\<close> and \<open>b\<close>.\<close>

definition replace_char :: "char \<Rightarrow> char \<Rightarrow> string \<Rightarrow> string" where
  "replace_char a b s = map (\<lambda>c. if c = a then b else c) s"

text \<open>\<^verbatim>\<open>sanitize_filename\<close>:
  \<^verbatim>\<open>return name.lower().replace(" ", "_").replace("/", "_")\<close>\<close>

definition sanitize_filename :: "string \<Rightarrow> string" where
  "sanitize_filename name =
     replace_char (CHR ''/'') (CHR ''_'') (replace_char (CHR '' '') (CHR ''_'') (lower name))"

text \<open>The ASCII characters that \<^verbatim>\<open>str.strip()\<close> removes: tab, line feed, vertical tab,
  form feed, carriage return, the four separators 28 to 31, and the space.\<close>

definition is_space :: "char \<Rightarrow> bool" where
  "is_space c = (let n = (of_char c :: nat) in (9 \<le> n \<and> n \<le> 13) \<or> (28 \<le> n \<and> n \<le> 32))"

definition strip :: "string \<Rightarrow> string" where
  "strip s = rev (dropWhile is_space (rev (dropWhile is_space s)))"

text \<open>\<^verbatim>\<open>s.startswith(sub)\<close> and \<^verbatim>\<open>sub in s\<close>.\<close>

definition startswith :: "string \<Rightarrow> string \<Rightarrow> bool" where
  "startswith s sub = (take (length sub) s = sub)"

fun contains :: "string \<Rightarrow> string \<Rightarrow> bool" where
  "contains [] sub = (sub = [])"
| "contains (c # cs) sub = (startswith (c # cs) sub \<or> contains cs sub)"

text \<open>\<^verbatim>\<open>s.split(sep)\<close> for a non-empty separator: the pieces between the occurrences of
  \<open>sep\<close>, found from the left without overlap. \<open>cur\<close> is the piece being read.\<close>

fun split_from :: "string \<Rightarrow> string \<Rightarrow> string \<Rightarrow> string list" where
  "split_from sep cur [] = [cur]"
| "split_from sep cur (c # cs) =
     (if sep \<noteq> [] \<and> startswith (c # cs) sep
      then cur # split_from sep [] (drop (length sep) (c # cs))
      else split_from sep (cur @ [c]) cs)"

definition split :: "string \<Rightarrow> string \<Rightarrow> string list" where
  "split s sep = split_from sep [] s"

text \<open>\<^verbatim>\<open>xs[i]\<close> on a list, for \<open>i \<ge> 0\<close>.\<close>

definition py_nth :: "'a list \<Rightarrow> nat \<Rightarrow> py_error + 'a" where
  "py_nth xs i = (if i < length xs then Inr (xs ! i) else Inl IndexError)"

text \<open>\<^verbatim>\<open>str(n)\<close> for an integer, as \<^verbatim>\<open>json.dump\<close> writes an integer key.\<close>

fun str_nat :: "nat \<Rightarrow> string" where
  "str_nat n =
     (if n < 10 then [char_of (48 + n)] else str_nat (n div 10) @ [char_of (48 + n mod 10)])"

definition str_int :: "int \<Rightarrow> string" where
  "str_int i = (if i < 0 then CHR ''-'' # str_nat (nat (- i)) else str_nat (nat i))"

text \<open>Sequencing of steps that may raise: the first exception wins.\<close>

definition py_bind :: "py_error + 'a \<Rightarrow> ('a \<Rightarrow> py_error + 'b) \<Rightarrow> py_error + 'b" where
  "py_bind m f = (case m of Inl e \<Rightarrow> Inl e | Inr x \<Rightarrow> f x)"

text \<open>\<^verbatim>\<open>x[k1][k2]\<close>.\<close>

definition py_item2 :: "json \<Rightarrow> string \<Rightarrow> string \<Rightarrow> py_error + json" where
  "py_item2 x k1 k2 = py_bind (py_item x k1) (\<lambda>y. py_item y k2)"

section \<open>The persisted files and the outside world\<close>

text \<open>
  A file holds text; \<^verbatim>\<open>json.load\<close> either raises \<^verbatim>\<open>JSONDecodeError\<close> on it
  (\<open>Malformed\<close>) or returns a value (\<open>Parsed\<close>), and \<^verbatim>\<open>json.dump\<close> of a value writes
  a text that loads as that value. \<open>config_file\<close> is \<^verbatim>\<open>.notes_config.json\<close> beside
  the script; \<open>course_files\<close> is the directory \<^verbatim>\<open>courses/\<close>, from file name to
  content, so that two paths with the same name are the same file. \<open>anki_log\<close> is the
  sequence of requests made to the flashcard application so far.
\<close>

datatype file_content = Malformed | Parsed json

text \<open>A deck name handed to the flashcard application: the configured value itself, or
  the f-string \<^verbatim>\<open>f"{deck_name}::{note['level']}"\<close> of two values.\<close>

datatype deck_ref = Deck json | SubDeck json json

datatype anki_call =
    CreateDeck deck_ref
  | AddNote deck_ref json "(json \<times> json) list" "string list"

record state =
  config_file :: "file_content option"
  course_files :: "string \<Rightarrow> file_content option"
  anki_log :: "anki_call list"

text \<open>
  What the program takes from outside of its files: the environment variable
  \<^verbatim>\<open>OPENAI_API_KEY\<close>; \<^verbatim>\<open>str.format\<close> on the stored template (template, course,
  phrase, level, context section, grammar section); the completion endpoint, from the
  prompt to the decoded body of the reply, or the exception of \<^verbatim>\<open>requests.post\<close>,
  \<^verbatim>\<open>raise_for_status\<close> or \<^verbatim>\<open>response.json\<close>; \<^verbatim>\<open>json.loads\<close>; the clock,
  \<^verbatim>\<open>datetime.datetime.now().isoformat()\<close>; whether \<^verbatim>\<open>from anki import AnkiConnect\<close>
  succeeded; and the flashcard application, which accepts or refuses a request given the
  requests made before it. The module \<^verbatim>\<open>anki\<close> is not part of the source, so its two
  methods are these requests, and creating the \<^verbatim>\<open>AnkiConnect\<close> object is taken not to
  raise.
\<close>

record env =
  api_key :: "string option"
  format_prompt :: "string \<Rightarrow> json \<Rightarrow> string \<Rightarrow> json \<Rightarrow> string \<Rightarrow> string \<Rightarrow> py_error + string"
  chat :: "string \<Rightarrow> py_error + json"
  loads :: "string \<Rightarrow> json option"
  now :: string
  anki_module :: bool
  anki_accepts :: "anki_call list \<Rightarrow> anki_call \<Rightarrow> bool"

text \<open>What a command reports when it returns; an uncaught exception is \<open>Inl\<close> of the
  command's result instead.\<close>

datatype outcome =
    NoCourseSelected
  | CourseSet bool
  | LevelSet
  | NoApiKey
  | NewFailed py_error
  | NoteAdded json json
  | NoNotesFound
  | AllSynced
  | AnkiImportError
  | SyncComplete "(string \<times> py_error option) list" nat nat
  | Listed "(string \<times> json) list"

section \<open>Configuration store\<close>

text \<open>\<^verbatim>\<open>load_global_config\<close>: the default when the file is missing, and when
  \<^verbatim>\<open>json.load\<close> raises \<^verbatim>\<open>JSONDecodeError\<close>.\<close>

definition load_global_config :: "state \<Rightarrow> json" where
  "load_global_config s =
     (case config_file s of
        None \<Rightarrow> JObj [(''current_course'', JNull)]
      | Some Malformed \<Rightarrow> JObj [(''current_course'', JNull)]
      | Some (Parsed j) \<Rightarrow> j)"


text \<open>\<^verbatim>\<open>sanitize_filename(name)\<close> on a value: only a string has \<^verbatim>\<open>lower\<close>.\<close>

fun py_sanitize :: "json \<Rightarrow> py_error + string" where
  "py_sanitize (JStr name) = Inr (sanitize_filename name)"
| "py_sanitize _ = Inl AttributeError"

definition course_path :: "string \<Rightarrow> string" where
  "course_path name = name @ ''.json''"

definition notes_path :: "string \<Rightarrow> string" where
  "notes_path name = name @ ''_notes.json''"

text \<open>\<^verbatim>\<open>load_course_config\<close>: \<^verbatim>\<open>None\<close> when the file is missing; \<^verbatim>\<open>json.load\<close> is
  not guarded here.\<close>

definition load_course_config :: "state \<Rightarrow> json \<Rightarrow> py_error + json" where
  "load_course_config s course_name =
     py_bind (py_sanitize course_name) (\<lambda>name.
       case course_files s (course_path name) of
         None \<Rightarrow> Inr JNull
       | Some Malformed \<Rightarrow> Inl JSONDecodeError
       | Some (Parsed j) \<Rightarrow> Inr j)"

definition save_course_config :: "json \<Rightarrow> json \<Rightarrow> state \<Rightarrow> py_error + state" where
  "save_course_config course_name config s =
     py_bind (py_sanitize course_name) (\<lambda>name.
       Inr (s\<lparr>course_files := (course_files s)(course_path name \<mapsto> Parsed config)\<rparr>))"

text \<open>\<^verbatim>\<open>global_config.get('current_course')\<close>.\<close>

definition current_course_of :: "state \<Rightarrow> py_error + json" where
  "current_course_of s = py_get_default (load_global_config s) ''current_course'' JNull"



section \<open>Course and level commands\<close>

text \<open>The course configuration that \<^verbatim>\<open>cmd_course\<close> creates.\<close>

definition new_course_config :: "string \<Rightarrow> string \<Rightarrow> bool \<Rightarrow> string \<Rightarrow> json" where
  "new_course_config course_name created is_language ai_prompt =
     JObj [
       (''course_name'', JStr course_name),
       (''created'', JStr created),
       (''is_language'', JBool is_language),
       (''current_level'', JNull),
       (''ai_prompt'', JStr ai_prompt),
       (''anki'', JObj [
          (''deck_name'', JStr course_name),
          (''model_name'', JStr (course_name @ '' (Notes)'')),
          (''use_sub_decks'', JBool True)]),
       (''fields'', JObj [
          (''term'', JStr ''Term''),
          (''translation'', JStr (if is_language then ''Translation'' else ''Explanation'')),
          (''example'', JStr ''Example''),
          (''example_translation'', JStr ''Example Explanation''),
          (''notes'', JStr ''Notes''),
          (''pronunciation'', if is_language then JStr ''Pronunciation'' else JNull)])]"


text \<open>\<^verbatim>\<open>cmd_level\<close>: the only guard is the test of \<^verbatim>\<open>current_course\<close>; the loaded
  configuration is assigned to without a test.\<close>

definition cmd_level :: "string \<Rightarrow> state \<Rightarrow> (py_error + outcome) \<times> state" where
  "cmd_level level s =
     (case current_course_of s of
        Inl e \<Rightarrow> (Inl e, s)
      | Inr current_course \<Rightarrow>
         (if \<not> truthy current_course then (Inr NoCourseSelected, s)
          else (case load_course_config s current_course of
                  Inl e \<Rightarrow> (Inl e, s)
                | Inr course_config \<Rightarrow>
                   (case py_setitem course_config ''current_level'' (JStr level) of
                      Inl e \<Rightarrow> (Inl e, s)
                    | Inr course_config' \<Rightarrow>
                       (case save_course_config current_course course_config' s of
                          Inl e \<Rightarrow> (Inl e, s)
                        | Inr s' \<Rightarrow> (Inr LevelSet, s'))))))"

section \<open>Note creation\<close>

text \<open>
  The reply of the model is searched for a fenced block:
  \<^verbatim>\<open>if "```json" in ai_response:\<close>
  \<^verbatim>\<open>    ai_response = ai_response.split("```json")[1].split("```")[0].strip()\<close>
  \<^verbatim>\<open>elif "```" in ai_response:\<close>
  \<^verbatim>\<open>    ai_response = ai_response.split("```")[1].split("```")[0].strip()\<close>
\<close>

definition extract_payload :: "string \<Rightarrow> py_error + string" where
  "extract_payload ai_response =
     (if contains ai_response ''```json'' then
        py_bind (py_nth (split ai_response ''```json'') 1) (\<lambda>x.
        py_bind (py_nth (split x ''```'') 0) (\<lambda>y. Inr (strip y)))
      else if contains ai_response ''```'' then
        py_bind (py_nth (split ai_response ''```'') 1) (\<lambda>x.
        py_bind (py_nth (split x ''```'') 0) (\<lambda>y. Inr (strip y)))
      else Inr ai_response)"

text \<open>
  The same lines on whatever \<^verbatim>\<open>message['content']\<close> is. On a dict \<^verbatim>\<open>in\<close> tests the
  keys and on a list the elements, and neither has \<^verbatim>\<open>split\<close>; without a match the
  value reaches \<^verbatim>\<open>json.loads\<close>, which takes text only. \<^verbatim>\<open>None\<close>, a number and a
  boolean are not iterable.
\<close>

fun reply_text :: "json \<Rightarrow> py_error + string" where
  "reply_text (JStr t) = extract_payload t"
| "reply_text (JObj kvs) =
     (if map_of kvs ''```json'' \<noteq> None \<or> map_of kvs ''```'' \<noteq> None
      then Inl AttributeError else Inl TypeError)"
| "reply_text (JArr xs) =
     (if JStr ''```json'' \<in> set xs \<or> JStr ''```'' \<in> set xs
      then Inl AttributeError else Inl TypeError)"
| "reply_text _ = Inl TypeError"

definition py_loads :: "env \<Rightarrow> string \<Rightarrow> py_error + json" where
  "py_loads env text = (case loads env text of None \<Rightarrow> Inl JSONDecodeError | Some j \<Rightarrow> Inr j)"

text \<open>\<^verbatim>\<open>if args.context\<close>: the option was given and is not the empty string.\<close>

fun arg_given :: "string option \<Rightarrow> bool" where
  "arg_given None = False"
| "arg_given (Some v) = (v \<noteq> [])"

fun arg_text :: "string option \<Rightarrow> string" where
  "arg_text None = []"
| "arg_text (Some v) = v"

text \<open>The key under which \<^verbatim>\<open>json.dump\<close> writes a dict key; a list or a dict is not
  hashable and cannot be a key at all.\<close>

fun key_str :: "json \<Rightarrow> py_error + string" where
  "key_str (JStr k) = Inr k"
| "key_str (JInt n) = Inr (str_int n)"
| "key_str (JBool b) = Inr (if b then ''true'' else ''false'')"
| "key_str JNull = Inr ''null''"
| "key_str _ = Inl TypeError"

text \<open>
  \<^verbatim>\<open>notes_data[term_key] = note_data\<close>, as the file shows it after \<^verbatim>\<open>json.dump\<close>. In
  a dict the note goes under the key as \<^verbatim>\<open>json.dump\<close> writes it (a key that is already
  there keeps its place). A list takes an integer or boolean index that is in range,
  counted from the end when negative.
\<close>

fun store_note :: "json \<Rightarrow> json \<Rightarrow> json \<Rightarrow> py_error + json" where
  "store_note (JObj kvs) term_key note_data =
     py_bind (key_str term_key) (\<lambda>k. Inr (JObj (dict_set kvs k note_data)))"
| "store_note (JArr xs) term_key note_data =
     (case term_key of
        JInt i \<Rightarrow>
          (let j = (if i < 0 then int (length xs) + i else i)
           in if 0 \<le> j \<and> j < int (length xs) then Inr (JArr (xs[nat j := note_data]))
              else Inl IndexError)
      | JBool b \<Rightarrow>
          (let j = (if b then 1 else 0)
           in if j < length xs then Inr (JArr (xs[j := note_data])) else Inl IndexError)
      | _ \<Rightarrow> Inl TypeError)"
| "store_note _ term_key note_data = Inl TypeError"

text \<open>The notes file as \<^verbatim>\<open>cmd_new\<close> reads it: \<^verbatim>\<open>{}\<close> when the file is missing and
  when \<^verbatim>\<open>json.load\<close> raises \<^verbatim>\<open>JSONDecodeError\<close>.\<close>

definition load_notes_or_empty :: "state \<Rightarrow> string \<Rightarrow> json" where
  "load_notes_or_empty s name =
     (case course_files s (notes_path name) of
        None \<Rightarrow> JObj []
      | Some Malformed \<Rightarrow> JObj []
      | Some (Parsed j) \<Rightarrow> j)"

text \<open>\<^verbatim>\<open>course_config['ai_prompt'].format(course=course_config['course_name'], ...)\<close>.\<close>

definition build_prompt :: "env \<Rightarrow> json \<Rightarrow> string \<Rightarrow> json \<Rightarrow> string \<Rightarrow> string \<Rightarrow> py_error + string" where
  "build_prompt env course_config phrase level context_section grammar_section =
     py_bind (py_item course_config ''ai_prompt'') (\<lambda>template.
       (case template of
          JStr t \<Rightarrow>
            py_bind (py_item course_config ''course_name'') (\<lambda>course.
              format_prompt env t course phrase level context_section grammar_section)
        | _ \<Rightarrow> Inl AttributeError))"

text \<open>The lines of \<^verbatim>\<open>cmd_new\<close> between the test of the course and the test of the API
  key; none of them is inside the \<^verbatim>\<open>try\<close>.\<close>

definition new_prepare :: "env \<Rightarrow> string \<Rightarrow> string option \<Rightarrow> string option \<Rightarrow> state \<Rightarrow> json
    \<Rightarrow> py_error + (string \<times> json \<times> json \<times> string)" where
  "new_prepare env phrase context grammar s current_course =
     py_bind (load_course_config s current_course) (\<lambda>course_config.
     py_bind (py_sanitize current_course) (\<lambda>name.
       (let notes_data = load_notes_or_empty s name in
        py_bind (py_get_default course_config ''current_level'' (JStr ''general'')) (\<lambda>level.
          (let context_section =
                 (if arg_given context then ''\<newline>Context/Example: '' @ arg_text context else []);
               grammar_section =
                 (if arg_given grammar then ''\<newline>Additional info: '' @ arg_text grammar else [])
           in py_bind (build_prompt env course_config phrase level context_section grammar_section)
                (\<lambda>prompt. Inr (name, notes_data, level, prompt)))))))"

text \<open>The metadata that \<^verbatim>\<open>cmd_new\<close> writes into the parsed reply.\<close>

definition add_metadata :: "env \<Rightarrow> json \<Rightarrow> string option \<Rightarrow> string option \<Rightarrow> json \<Rightarrow> py_error + json" where
  "add_metadata env level context grammar note_data =
     py_bind (py_setitem note_data ''added'' (JStr (now env))) (\<lambda>n1.
     py_bind (py_setitem n1 ''level'' level) (\<lambda>n2.
     py_bind (py_setitem n2 ''synced'' (JBool False)) (\<lambda>n3.
     py_bind (if arg_given context then py_setitem n3 ''context'' (JStr (arg_text context)) else Inr n3) (\<lambda>n4.
             (if arg_given grammar then py_setitem n4 ''grammar'' (JStr (arg_text grammar)) else Inr n4)))))"

text \<open>\<^verbatim>\<open>response.json()['choices'][0]['message']['content']\<close>.\<close>

definition reply_content :: "env \<Rightarrow> string \<Rightarrow> py_error + json" where
  "reply_content env prompt =
     py_bind (chat env prompt) (\<lambda>body.
     py_bind (py_item body ''choices'') (\<lambda>choices.
     py_bind (py_item0 choices) (\<lambda>choice.
     py_bind (py_item choice ''message'') (\<lambda>message.
       py_item message ''content''))))"

text \<open>The reply of the model as a value: the content, the text chosen from it, and
  \<^verbatim>\<open>json.loads\<close> of that text.\<close>

definition model_reply :: "env \<Rightarrow> string \<Rightarrow> py_error + json" where
  "model_reply env prompt =
     py_bind (reply_content env prompt) (\<lambda>ai_response.
     py_bind (reply_text ai_response) (\<lambda>text.
       py_loads env text))"

text \<open>The body of the \<^verbatim>\<open>try\<close> of \<^verbatim>\<open>cmd_new\<close> up to the write: the stored key, the
  note and the new content of the notes file.\<close>

definition new_note :: "env \<Rightarrow> string \<Rightarrow> string option \<Rightarrow> string option \<Rightarrow> json \<Rightarrow> string \<Rightarrow> json
    \<Rightarrow> py_error + (json \<times> json \<times> json)" where
  "new_note env phrase context grammar level prompt notes_data =
     py_bind (model_reply env prompt) (\<lambda>parsed.
     py_bind (add_metadata env level context grammar parsed) (\<lambda>note_data.
     py_bind (py_get_default note_data ''term'' (JStr phrase)) (\<lambda>term_key.
     py_bind (store_note notes_data term_key note_data) (\<lambda>notes_data'.
       Inr (term_key, note_data, notes_data')))))"

text \<open>\<^verbatim>\<open>if not OPENAI_API_KEY\<close>.\<close>

definition key_missing :: "env \<Rightarrow> bool" where
  "key_missing env = (\<not> arg_given (api_key env))"

text \<open>\<^verbatim>\<open>cmd_new\<close>. Every exception of the \<^verbatim>\<open>try\<close> is caught and printed, and the
  command returns without writing.\<close>

definition cmd_new :: "env \<Rightarrow> string \<Rightarrow> string option \<Rightarrow> string option \<Rightarrow> state \<Rightarrow> (py_error + outcome) \<times> state" where
  "cmd_new env phrase context grammar s =
     (case current_course_of s of
        Inl e \<Rightarrow> (Inl e, s)
      | Inr current_course \<Rightarrow>
         (if \<not> truthy current_course then (Inr NoCourseSelected, s)
          else (case new_prepare env phrase context grammar s current_course of
                  Inl e \<Rightarrow> (Inl e, s)
                | Inr (name, notes_data, level, prompt) \<Rightarrow>
                   (if key_missing env then (Inr NoApiKey, s)
                    else (case new_note env phrase context grammar level prompt notes_data of
                            Inl e \<Rightarrow> (Inr (NewFailed e), s)
                          | Inr (term_key, note_data, notes_data') \<Rightarrow>
                             (Inr (NoteAdded term_key note_data),
                              s\<lparr>course_files := (course_files s)
                                   (notes_path name \<mapsto> Parsed notes_data')\<rparr>))))))"

section \<open>Synchronisation with the flashcard application\<close>

text \<open>One request to the flashcard application: it is made, and it returns or raises.\<close>

definition anki_request :: "env \<Rightarrow> anki_call \<Rightarrow> anki_call list \<Rightarrow> (py_error + unit) \<times> anki_call list" where
  "anki_request env c log =
     (if anki_accepts env log c then (Inr (), log @ [c]) else (Inl ExternalError, log @ [c]))"

text \<open>Keys of the \<^verbatim>\<open>fields\<close> dict are configured values: a list or a dict cannot be
  hashed, and \<^verbatim>\<open>True\<close> and \<^verbatim>\<open>False\<close> are the keys \<open>1\<close> and \<open>0\<close>.\<close>

fun key_norm :: "json \<Rightarrow> json" where
  "key_norm (JBool b) = JInt (if b then 1 else 0)"
| "key_norm j = j"

fun hashable :: "json \<Rightarrow> bool" where
  "hashable (JArr xs) = False"
| "hashable (JObj kvs) = False"
| "hashable _ = True"

fun fields_update :: "(json \<times> json) list \<Rightarrow> json \<Rightarrow> json \<Rightarrow> (json \<times> json) list" where
  "fields_update [] k v = [(k, v)]"
| "fields_update ((k', v') # kvs) k v =
     (if key_norm k' = key_norm k then (k', v) # kvs else (k', v') # fields_update kvs k v)"

definition fields_set :: "(json \<times> json) list \<Rightarrow> json \<Rightarrow> json \<Rightarrow> py_error + (json \<times> json) list" where
  "fields_set flds k v = (if hashable k then Inr (fields_update flds k v) else Inl TypeError)"

text \<open>\<^verbatim>\<open>k in x\<close> for a string \<open>k\<close>, where \<open>x\<close> is a dict.\<close>

fun has_key :: "json \<Rightarrow> string \<Rightarrow> bool" where
  "has_key (JObj kvs) k = (map_of kvs k \<noteq> None)"
| "has_key _ k = False"

text \<open>The deck of a note: the sub-deck of its level when sub-decks are on and the note
  has a level.\<close>

definition target_deck :: "json \<Rightarrow> json \<Rightarrow> json \<Rightarrow> py_error + deck_ref" where
  "target_deck course_config deck_name note =
     py_bind (py_item2 course_config ''anki'' ''use_sub_decks'') (\<lambda>use_sub_decks.
       if truthy use_sub_decks
       then py_bind (py_get_default note ''level'' JNull) (\<lambda>level.
              if truthy level
              then py_bind (py_item note ''level'') (\<lambda>l. Inr (SubDeck deck_name l))
              else Inr (Deck deck_name))
       else Inr (Deck deck_name))"

text \<open>The \<^verbatim>\<open>fields\<close> dict of a note: the keys and values of the dict display are read
  in turn and the keys are hashed when the dict is built; then the optional fields are
  added.\<close>

definition build_fields :: "json \<Rightarrow> string \<Rightarrow> json \<Rightarrow> py_error + (json \<times> json) list" where
  "build_fields course_config term note =
     py_bind (py_item2 course_config ''fields'' ''term'') (\<lambda>k_term.
     py_bind (py_get_default note ''term'' (JStr term)) (\<lambda>v_term.
     py_bind (py_item2 course_config ''fields'' ''example'') (\<lambda>k_example.
     py_bind (py_get_default note ''example'' (JStr [])) (\<lambda>v_example.
     py_bind (py_item2 course_config ''fields'' ''notes'') (\<lambda>k_notes.
     py_bind (py_get_default note ''notes'' (JStr [])) (\<lambda>v_notes.
     py_bind (fields_set [] k_term v_term) (\<lambda>f1.
     py_bind (fields_set f1 k_example v_example) (\<lambda>f2.
     py_bind (fields_set f2 k_notes v_notes) (\<lambda>f3.
     py_bind (py_item2 course_config ''fields'' ''translation'') (\<lambda>k_translation.
     py_bind (if truthy k_translation
              then py_bind (py_get_default note
                              (if has_key note ''translation'' then ''translation'' else ''explanation'')
                              (JStr []))
                     (\<lambda>v. fields_set f3 k_translation v)
              else Inr f3) (\<lambda>f4.
     py_bind (py_item2 course_config ''fields'' ''example_translation'') (\<lambda>k_example_translation.
     py_bind (if truthy k_example_translation
              then py_bind (py_get_default note ''example_translation'' (JStr []))
                     (\<lambda>v. fields_set f4 k_example_translation v)
              else Inr f4) (\<lambda>f5.
     py_bind (py_item course_config ''fields'') (\<lambda>cfg_fields.
     py_bind (py_get_default cfg_fields ''pronunciation'' JNull) (\<lambda>k_pronunciation.
       if truthy k_pronunciation
       then py_bind (py_get_default note ''pronunciation'' JNull) (\<lambda>p.
              if truthy p
              then py_bind (py_item note ''pronunciation'') (\<lambda>v. fields_set f5 k_pronunciation v)
              else Inr f5)
       else Inr f5)))))))))))))))"

text \<open>The body of the \<^verbatim>\<open>try\<close> of the loop, up to and including \<^verbatim>\<open>anki.add_note\<close>:
  the result of pushing one note, and the requests made.\<close>

definition push_note :: "env \<Rightarrow> json \<Rightarrow> json \<Rightarrow> string \<Rightarrow> string \<Rightarrow> json
    \<Rightarrow> anki_call list \<Rightarrow> (py_error + unit) \<times> anki_call list" where
  "push_note env course_config deck_name tag term note log =
     (case target_deck course_config deck_name note of
        Inl e \<Rightarrow> (Inl e, log)
      | Inr target \<Rightarrow>
         (case anki_request env (CreateDeck target) log of
            (Inl e, log1) \<Rightarrow> (Inl e, log1)
          | (Inr _, log1) \<Rightarrow>
             (case build_fields course_config term note of
                Inl e \<Rightarrow> (Inl e, log1)
              | Inr flds \<Rightarrow>
                 (case py_item2 course_config ''anki'' ''model_name'' of
                    Inl e \<Rightarrow> (Inl e, log1)
                  | Inr model_name \<Rightarrow>
                      anki_request env (AddNote target model_name flds [tag]) log1))))"

text \<open>\<^verbatim>\<open>notes_data[term]['synced'] = True\<close>.\<close>

definition mark_synced :: "(string \<times> json) list \<Rightarrow> string \<Rightarrow> py_error + (string \<times> json) list" where
  "mark_synced notes_data term =
     (case map_of notes_data term of
        None \<Rightarrow> Inl KeyError
      | Some note \<Rightarrow>
          py_bind (py_setitem note ''synced'' (JBool True)) (\<lambda>note'.
            Inr (dict_set notes_data term note')))"

text \<open>
  The loop of \<^verbatim>\<open>cmd_sync\<close> over the unsynced notes. Each pass is one \<^verbatim>\<open>try\<close>: an
  exception is printed by the handler and the loop goes on with the next note. The
  result is the printed line of every pass (the term, and the exception if there was
  one), the notes as they are then, and the requests made.
\<close>

fun sync_loop :: "env \<Rightarrow> json \<Rightarrow> json \<Rightarrow> string \<Rightarrow> (string \<times> json) list \<Rightarrow> (string \<times> json) list
    \<Rightarrow> anki_call list \<Rightarrow> (string \<times> py_error option) list \<times> (string \<times> json) list \<times> anki_call list" where
  "sync_loop env course_config deck_name tag [] notes_data log = ([], notes_data, log)"
| "sync_loop env course_config deck_name tag ((term, note) # rest) notes_data log =
     (case push_note env course_config deck_name tag term note log of
        (Inl e, log1) \<Rightarrow>
          (case sync_loop env course_config deck_name tag rest notes_data log1 of
             (reports, notes_data', log') \<Rightarrow> ((term, Some e) # reports, notes_data', log'))
      | (Inr _, log1) \<Rightarrow>
          (case mark_synced notes_data term of
             Inl e \<Rightarrow>
               (case sync_loop env course_config deck_name tag rest notes_data log1 of
                  (reports, notes_data', log') \<Rightarrow> ((term, Some e) # reports, notes_data', log'))
           | Inr notes_data1 \<Rightarrow>
               (case sync_loop env course_config deck_name tag rest notes_data1 log1 of
                  (reports, notes_data', log') \<Rightarrow> ((term, None) # reports, notes_data', log'))))"

text \<open>\<^verbatim>\<open>not v.get('synced', False)\<close>, which raises on a value that is not a dict.\<close>

definition is_unsynced :: "json \<Rightarrow> py_error + bool" where
  "is_unsynced v = py_bind (py_get_default v ''synced'' (JBool False)) (\<lambda>flag. Inr (\<not> truthy flag))"

text \<open>The comprehension \<^verbatim>\<open>{k: v for k, v in notes_data.items() if not v.get('synced', False)}\<close>.\<close>

fun unsynced_of :: "(string \<times> json) list \<Rightarrow> py_error + (string \<times> json) list" where
  "unsynced_of [] = Inr []"
| "unsynced_of ((k, v) # kvs) =
     py_bind (is_unsynced v) (\<lambda>u.
     py_bind (unsynced_of kvs) (\<lambda>rest. Inr (if u then (k, v) # rest else rest)))"

text \<open>\<^verbatim>\<open>synced_count\<close>.\<close>

definition synced_count :: "(string \<times> py_error option) list \<Rightarrow> nat" where
  "synced_count reports = length (filter (\<lambda>r. snd r = None) reports)"

text \<open>
  \<^verbatim>\<open>cmd_sync\<close>. Nothing before the loop is inside a \<^verbatim>\<open>try\<close>: the load of the notes
  file, the load of the course configuration, the lookup of the deck name and the first
  \<^verbatim>\<open>create_deck\<close> end the command when they raise. The notes file is written once,
  after the loop.
\<close>

definition cmd_sync :: "env \<Rightarrow> state \<Rightarrow> (py_error + outcome) \<times> state" where
  "cmd_sync env s =
     (case current_course_of s of
        Inl e \<Rightarrow> (Inl e, s)
      | Inr current_course \<Rightarrow>
         (if \<not> truthy current_course then (Inr NoCourseSelected, s)
          else (case py_sanitize current_course of
                  Inl e \<Rightarrow> (Inl e, s)
                | Inr name \<Rightarrow>
                   (case course_files s (notes_path name) of
                      None \<Rightarrow> (Inr NoNotesFound, s)
                    | Some Malformed \<Rightarrow> (Inl JSONDecodeError, s)
                    | Some (Parsed loaded) \<Rightarrow>
                       (case py_bind (py_items loaded) (\<lambda>notes_data.
                               py_bind (unsynced_of notes_data) (\<lambda>unsynced. Inr (notes_data, unsynced))) of
                          Inl e \<Rightarrow> (Inl e, s)
                        | Inr (notes_data, unsynced) \<Rightarrow>
                           (if unsynced = [] then (Inr AllSynced, s)
                            else if \<not> anki_module env then (Inr AnkiImportError, s)
                            else (case py_bind (load_course_config s current_course) (\<lambda>course_config.
                                         py_bind (py_item2 course_config ''anki'' ''deck_name'') (\<lambda>deck_name.
                                           Inr (course_config, deck_name))) of
                                    Inl e \<Rightarrow> (Inl e, s)
                                  | Inr (course_config, deck_name) \<Rightarrow>
                                     (case anki_request env (CreateDeck (Deck deck_name)) (anki_log s) of
                                        (Inl e, log0) \<Rightarrow> (Inl e, s\<lparr>anki_log := log0\<rparr>)
                                      | (Inr _, log0) \<Rightarrow>
                                         (case sync_loop env course_config deck_name name unsynced notes_data log0 of
                                            (reports, notes_data', log') \<Rightarrow>
                                              (Inr (SyncComplete reports (synced_count reports) (length unsynced)),
                                               s\<lparr>course_files := (course_files s)
                                                    (notes_path name \<mapsto> Parsed (JObj notes_data')),
                                                  anki_log := log'\<rparr>))))))))))"

section \<open>Listing\<close>

text \<open>A step applied to every element of a list, stopping at the first exception.\<close>

fun map_ok :: "('a \<Rightarrow> py_error + 'b) \<Rightarrow> 'a list \<Rightarrow> py_error + 'b list" where
  "map_ok f [] = Inr []"
| "map_ok f (x # xs) = py_bind (f x) (\<lambda>y. py_bind (map_ok f xs) (\<lambda>ys. Inr (y # ys)))"

text \<open>\<^verbatim>\<open>sorted(xs, key=f, reverse=True)\<close> on keys of one ordered type: the list is
  reversed, sorted by a stable sort and reversed again.\<close>

definition sorted_desc :: "('a \<Rightarrow> 'k::linorder) \<Rightarrow> 'a list \<Rightarrow> 'a list" where
  "sorted_desc f xs = rev (sort_key f (rev xs))"

fun is_str :: "json \<Rightarrow> bool" where
  "is_str (JStr s) = True"
| "is_str _ = False"

fun is_num :: "json \<Rightarrow> bool" where
  "is_num (JInt n) = True"
| "is_num (JBool b) = True"
| "is_num _ = False"

fun is_arr :: "json \<Rightarrow> bool" where
  "is_arr (JArr xs) = True"
| "is_arr _ = False"

fun str_of :: "json \<Rightarrow> string" where
  "str_of (JStr s) = s"
| "str_of _ = []"

fun num_of :: "json \<Rightarrow> int" where
  "num_of (JInt n) = n"
| "num_of (JBool b) = (if b then 1 else 0)"
| "num_of _ = 0"

text \<open>The sort key of an entry: \<^verbatim>\<open>x[1].get('added', '')\<close>.\<close>

definition added_key :: "string \<times> json \<Rightarrow> py_error + json" where
  "added_key x = py_get_default (snd x) ''added'' (JStr [])"

text \<open>
  \<^verbatim>\<open>sorted(notes_data.items(), key=lambda x: x[1].get('added', ''), reverse=True)\<close>.
  The keys are computed first, one for each entry. Strings are ordered character by
  character and integers and booleans by value. With fewer than two entries nothing is
  compared. Any other two keys that meet raise \<^verbatim>\<open>TypeError\<close>, unless both are lists:
  which lists meet depends on the steps of the sorting algorithm, and a collection
  whose keys are all lists is outside this model (\<open>NotModelled\<close>).
\<close>

definition sort_notes :: "(string \<times> json) list \<Rightarrow> py_error + (string \<times> json) list" where
  "sort_notes entries =
     py_bind (map_ok added_key entries) (\<lambda>keys.
       if list_all is_str keys
         then Inr (map snd (sorted_desc (\<lambda>p. str_of (fst p)) (zip keys entries)))
       else if length entries \<le> 1 then Inr entries
       else if list_all is_num keys
         then Inr (map snd (sorted_desc (\<lambda>p. num_of (fst p)) (zip keys entries)))
       else if list_all is_arr keys then Inl NotModelled
       else Inl TypeError)"

text \<open>\<^verbatim>\<open>xs[:n]\<close>: a negative \<open>n\<close> counts from the end.\<close>

definition py_take :: "int \<Rightarrow> 'a list \<Rightarrow> 'a list" where
  "py_take n xs = (if 0 \<le> n then take (nat n) xs else take (nat (int (length xs) + n)) xs)"

text \<open>\<^verbatim>\<open>limit = args.number if hasattr(args, 'number') and args.number else 5\<close>; the
  parser always sets \<^verbatim>\<open>number\<close>, to an integer.\<close>

definition list_limit :: "int \<Rightarrow> int" where
  "list_limit number = (if number \<noteq> 0 then number else 5)"

text \<open>\<^verbatim>\<open>cmd_list\<close>; the entries printed are the result.\<close>

definition cmd_list :: "int \<Rightarrow> state \<Rightarrow> (py_error + outcome) \<times> state" where
  "cmd_list number s =
     (case current_course_of s of
        Inl e \<Rightarrow> (Inl e, s)
      | Inr current_course \<Rightarrow>
         (if \<not> truthy current_course then (Inr NoCourseSelected, s)
          else (case py_sanitize current_course of
                  Inl e \<Rightarrow> (Inl e, s)
                | Inr name \<Rightarrow>
                   (case course_files s (notes_path name) of
                      None \<Rightarrow> (Inr NoNotesFound, s)
                    | Some Malformed \<Rightarrow> (Inl JSONDecodeError, s)
                    | Some (Parsed notes_data) \<Rightarrow>
                       (case py_bind (py_items notes_data) sort_notes of
                          Inl e \<Rightarrow> (Inl e, s)
                        | Inr sorted_notes \<Rightarrow>
                            (Inr (Listed (py_take (list_limit number) sorted_notes)), s))))))"

section \<open>The command line\<close>



section \<open>Example states\<close>

text \<open>An outside world in which everything works: the key is set, the model answers
  with a fenced block, and the flashcard application accepts every request.\<close>

definition env_ok :: env where
  "env_ok = \<lparr>
     api_key = Some ''sk-test'',
     format_prompt = (\<lambda>template course phrase level context_section grammar_section.
        Inr (template @ phrase @ context_section @ grammar_section)),
     chat = (\<lambda>prompt. Inr (JObj [(''choices'', JArr [JObj [(''message'', JObj [(''content'',
        JStr ''```json {\"term\": \"bonjour\", \"translation\": \"hello\"} ```'')])]])])),
     loads = (\<lambda>text. if text = ''{\"term\": \"bonjour\", \"translation\": \"hello\"}''
        then Some (JObj [(''term'', JStr ''bonjour''), (''translation'', JStr ''hello'')]) else None),
     now = ''2024-05-01T10:00:00'',
     anki_module = True,
     anki_accepts = (\<lambda>log c. True)\<rparr>"

text \<open>A state in which the global configuration names the course \<open>French\<close> and the
  directory \<^verbatim>\<open>courses/\<close> is empty.\<close>

definition s_stale :: state where
  "s_stale = \<lparr>config_file = Some (Parsed (JObj [(''current_course'', JStr ''French'')])),
              course_files = (\<lambda>f. None), anki_log = []\<rparr>"

text \<open>The course \<open>French\<close> selected, with a configuration file.\<close>

definition s_french :: state where
  "s_french = \<lparr>config_file = Some (Parsed (JObj [(''current_course'', JStr ''French'')])),
     course_files = (\<lambda>f. None)(''french.json'' \<mapsto>
        Parsed (JObj [(''course_name'', JStr ''French''), (''current_level'', JNull)])),
     anki_log = []\<rparr>"

text \<open>The course \<open>French\<close> selected; its notes file and the configuration file of the
  course \<open>Old\<close> do not parse.\<close>

definition s_broken :: state where
  "s_broken = \<lparr>config_file = Some (Parsed (JObj [(''current_course'', JStr ''French'')])),
     course_files = (\<lambda>f. None)(''french_notes.json'' \<mapsto> Malformed, ''old.json'' \<mapsto> Malformed),
     anki_log = []\<rparr>"

text \<open>The configuration of a language course \<open>French\<close>, as \<^verbatim>\<open>cmd_course\<close> creates it.\<close>

definition french_config :: json where
  "french_config = new_course_config ''French'' ''2024-04-01T09:00:00'' True ''Teach {phrase}''"

text \<open>The course \<open>French\<close> selected, with two notes: \<open>bonjour\<close> is synced and \<open>merci\<close>
  is not.\<close>

definition s_notes :: state where
  "s_notes = \<lparr>config_file = Some (Parsed (JObj [(''current_course'', JStr ''French'')])),
     course_files = (\<lambda>f. None)(
        ''french.json'' \<mapsto> Parsed french_config,
        ''french_notes.json'' \<mapsto> Parsed (JObj [
           (''bonjour'', JObj [(''term'', JStr ''bonjour''), (''synced'', JBool True)]),
           (''merci'', JObj [(''term'', JStr ''merci''), (''synced'', JBool False)])])),
     anki_log = []\<rparr>"

section \<open>Reference functions for the statements about synchronisation\<close>

text \<open>A note with its flag set, as \<^verbatim>\<open>note['synced'] = True\<close> leaves it.\<close>

definition set_synced :: "json \<Rightarrow> json" where
  "set_synced n = (case n of JObj kvs \<Rightarrow> JObj (dict_set kvs ''synced'' (JBool True)) | _ \<Rightarrow> n)"

text \<open>The collection with the flag set on the notes stored under the given terms, and
  every other note as it was.\<close>

definition mark_all :: "string list \<Rightarrow> (string \<times> json) list \<Rightarrow> (string \<times> json) list" where
  "mark_all terms nd = map (\<lambda>p. (fst p, if fst p \<in> set terms then set_synced (snd p) else snd p)) nd"

text \<open>Pushing every note of a batch in turn, whatever the results of the notes before:
  the result of each push, and the requests made.\<close>

fun push_all :: "env \<Rightarrow> json \<Rightarrow> json \<Rightarrow> string \<Rightarrow> (string \<times> json) list \<Rightarrow> anki_call list
    \<Rightarrow> (string \<times> (py_error + unit)) list \<times> anki_call list" where
  "push_all env course_config deck_name tag [] log = ([], log)"
| "push_all env course_config deck_name tag ((term, n) # rest) log =
     (case push_note env course_config deck_name tag term n log of
        (r, log1) \<Rightarrow>
          (case push_all env course_config deck_name tag rest log1 of
             (rs, log') \<Rightarrow> ((term, r) # rs, log')))"

text \<open>The line printed for a push, and the terms whose push succeeded.\<close>

definition report_of :: "string \<times> (py_error + unit) \<Rightarrow> string \<times> py_error option" where
  "report_of a = (fst a, case snd a of Inl e \<Rightarrow> Some e | Inr u \<Rightarrow> None)"

definition succeeded :: "(string \<times> (py_error + unit)) list \<Rightarrow> string list" where
  "succeeded attempts = map fst (filter (\<lambda>a. case snd a of Inl e \<Rightarrow> False | Inr u \<Rightarrow> True) attempts)"

text \<open>The flashcard application refuses every \<^verbatim>\<open>add_note\<close> and accepts every
  \<^verbatim>\<open>create_deck\<close>; everything else as in \<open>env_ok\<close>.\<close>

definition env_refuse :: env where
  "env_refuse = env_ok\<lparr>anki_accepts :=
     (\<lambda>log c. case c of CreateDeck d \<Rightarrow> True | AddNote d m f t \<Rightarrow> False)\<rparr>"

text \<open>The flashcard application refuses the first \<^verbatim>\<open>add_note\<close> it receives and accepts
  every request after it; everything else as in \<open>env_ok\<close>.\<close>

definition env_flaky :: env where
  "env_flaky = env_ok\<lparr>anki_accepts :=
     (\<lambda>log c. case c of
        CreateDeck d \<Rightarrow> True
      | AddNote d m f t \<Rightarrow>
          list_ex (\<lambda>x. case x of CreateDeck d' \<Rightarrow> False | AddNote d' m' f' t' \<Rightarrow> True) log)\<rparr>"

text \<open>The course \<open>French\<close> selected, with three notes: \<open>bonjour\<close> is synced, \<open>merci\<close> has
  no flag yet and \<open>salut\<close>, of level \<open>Beginner\<close>, has the flag \<^verbatim>\<open>false\<close>.\<close>

definition s_batch :: state where
  "s_batch = \<lparr>config_file = Some (Parsed (JObj [(''current_course'', JStr ''French'')])),
     course_files = (\<lambda>f. None)(
        ''french.json'' \<mapsto> Parsed french_config,
        ''french_notes.json'' \<mapsto> Parsed (JObj [
           (''bonjour'', JObj [(''term'', JStr ''bonjour''), (''synced'', JBool True)]),
           (''merci'', JObj [(''translation'', JStr ''thanks'')]),
           (''salut'', JObj [(''term'', JStr ''salut''), (''level'', JStr ''Beginner''),
                            (''synced'', JBool False)])])),
     anki_log = []\<rparr>"

section \<open>Reference functions for the statement about listing\<close>



section \<open>Reference predicate for the statement about the reply\<close>



section \<open>Properties of file-name sanitization\<close>








text \<open>Evaluating \<open>sanitize_filename\<close> on a literal name with the simplifier.\<close>

lemmas sanitize_eval =
  sanitize_filename_def replace_char_def lower_def lower_char_def less_eq_char_def
  char_of_def bit_Suc_0_iff



section \<open>Basic facts\<close>

lemma py_bind_simps [simp]:
  "py_bind (Inl e) f = Inl e" "py_bind (Inr x) f = f x"
  by (simp_all add: py_bind_def)

lemma py_bind_eq_Inr:
  "py_bind m f = Inr y \<longleftrightarrow> (\<exists>x. m = Inr x \<and> f x = Inr y)"
  by (cases m) simp_all

lemma map_of_dict_set:
  "map_of (dict_set kvs k v) k' = (if k' = k then Some v else map_of kvs k')"
  by (induction kvs) auto

lemma keys_dict_set:
  "map fst (dict_set kvs k v) = (if k \<in> fst ` set kvs then map fst kvs else map fst kvs @ [k])"
  by (induction kvs) force+

text \<open>Evaluating the configuration store on a concrete state with the simplifier.\<close>

lemmas state_eval = current_course_of_def load_global_config_def py_get_default_def
  load_course_config_def save_course_config_def course_path_def notes_path_def sanitize_eval

section \<open>A selected course without a configuration file\<close>

text \<open>
  Claim C10. When \<^verbatim>\<open>current_course\<close> names a course whose configuration file does not
  exist, \<^verbatim>\<open>load_course_config\<close> returns \<^verbatim>\<open>None\<close>, and the level command and the
  note-creation command end with an uncaught exception and leave the state as it was;
  neither reports that no course is selected. That report is made only when
  \<^verbatim>\<open>current_course\<close> itself is false as a condition.
\<close>

theorem missing_course_file_raises:
  assumes "current_course_of s = Inr (JStr c)" and "c \<noteq> []"
    and "course_files s (course_path (sanitize_filename c)) = None"
  shows "load_course_config s (JStr c) = Inr JNull
       \<and> cmd_level level s = (Inl TypeError, s)
       \<and> cmd_new env phrase context grammar s = (Inl AttributeError, s)
       \<and> (\<forall>t. fst (cmd_level level t) = Inr NoCourseSelected
              \<longrightarrow> (\<exists>cur. current_course_of t = Inr cur \<and> \<not> truthy cur))
       \<and> (\<forall>t. fst (cmd_new env phrase context grammar t) = Inr NoCourseSelected
              \<longrightarrow> (\<exists>cur. current_course_of t = Inr cur \<and> \<not> truthy cur))"
proof -
  have "load_course_config s (JStr c) = Inr JNull"
    using assms by (simp add: load_course_config_def)
  moreover have "cmd_level level s = (Inl TypeError, s)"
    using assms by (simp add: load_course_config_def cmd_level_def)
  moreover have "cmd_new env phrase context grammar s = (Inl AttributeError, s)"
    using assms
    by (simp add: load_course_config_def cmd_new_def new_prepare_def py_get_default_def)
  moreover have "fst (cmd_level level t) = Inr NoCourseSelected
      \<longrightarrow> (\<exists>cur. current_course_of t = Inr cur \<and> \<not> truthy cur)" for t
    by (auto simp: cmd_level_def split: sum.splits if_splits)
  moreover have "fst (cmd_new env phrase context grammar t) = Inr NoCourseSelected
      \<longrightarrow> (\<exists>cur. current_course_of t = Inr cur \<and> \<not> truthy cur)" for t
    by (auto simp: cmd_new_def split: sum.splits if_splits prod.splits)
  ultimately show ?thesis by blast
qed

theorem missing_course_file_raises_witness:
  "cmd_level ''Beginner'' s_stale = (Inl TypeError, s_stale)
   \<and> cmd_new env_ok ''bonjour'' None None s_stale = (Inl AttributeError, s_stale)"
  using missing_course_file_raises [of s_stale "''French''" "''Beginner''" env_ok "''bonjour''" None None]
  by (simp add: s_stale_def state_eval)

section \<open>The level command\<close>

text \<open>
  Claim C8, as the code has it. When the global configuration selects no course
  (\<^verbatim>\<open>current_course\<close> is absent, \<^verbatim>\<open>null\<close> or otherwise false), the level command
  reports this and leaves every file as it is. When it selects a course whose
  configuration file holds a JSON object, the command writes that object back with
  \<^verbatim>\<open>current_level\<close> set to the given level: every other key of the object, every other
  file and the global configuration stay as they were.
\<close>

theorem cmd_level_effect:
  "(current_course_of s = Inr cur \<and> \<not> truthy cur \<longrightarrow> cmd_level level s = (Inr NoCourseSelected, s))
   \<and> (current_course_of s = Inr (JStr c) \<and> c \<noteq> []
        \<and> course_files s (course_path (sanitize_filename c)) = Some (Parsed (JObj cfg))
      \<longrightarrow> cmd_level level s =
            (Inr LevelSet,
             s\<lparr>course_files := (course_files s)
                  (course_path (sanitize_filename c) \<mapsto>
                     Parsed (JObj (dict_set cfg ''current_level'' (JStr level))))\<rparr>)
          \<and> map_of (dict_set cfg ''current_level'' (JStr level)) ''current_level'' = Some (JStr level)
          \<and> (\<forall>k. k \<noteq> ''current_level'' \<longrightarrow>
                map_of (dict_set cfg ''current_level'' (JStr level)) k = map_of cfg k))"
  by (simp add: cmd_level_def load_course_config_def save_course_config_def map_of_dict_set)

theorem cmd_level_effect_witness:
  "cmd_level ''Beginner'' (s_stale\<lparr>config_file := None\<rparr>) = (Inr NoCourseSelected, s_stale\<lparr>config_file := None\<rparr>)
   \<and> cmd_level ''Beginner'' s_french =
     (Inr LevelSet,
      s_french\<lparr>course_files := (course_files s_french)(''french.json'' \<mapsto>
         Parsed (JObj [(''course_name'', JStr ''French''), (''current_level'', JStr ''Beginner'')]))\<rparr>)"
  using cmd_level_effect [of "s_stale\<lparr>config_file := None\<rparr>" JNull "''Beginner''"]
    cmd_level_effect [of s_french JNull "''Beginner''" "''French''"
      "[(''course_name'', JStr ''French''), (''current_level'', JNull)]"]
  by (simp add: s_french_def s_stale_def state_eval)

text \<open>The claim as it is written fails when a course is selected and its configuration
  file is missing: the level is not written anywhere, and the command ends with an
  exception.\<close>

theorem cmd_level_missing_config:
  "current_course_of s_stale = Inr (JStr ''French'')
   \<and> cmd_level ''Beginner'' s_stale = (Inl TypeError, s_stale)"
  by (simp add: cmd_level_def s_stale_def state_eval)

section \<open>Missing and malformed files\<close>

lemma load_tolerance:
  "(config_file s = None \<or> config_file s = Some Malformed
      \<longrightarrow> load_global_config s = JObj [(''current_course'', JNull)])
   \<and> (course_files s (notes_path name) = Some Malformed \<longrightarrow> load_notes_or_empty s name = JObj [])
   \<and> (course_files s (course_path (sanitize_filename c)) = None
      \<longrightarrow> load_course_config s (JStr c) = Inr JNull)
   \<and> (course_files s (course_path (sanitize_filename c)) = Some Malformed
      \<longrightarrow> load_course_config s (JStr c) = Inl JSONDecodeError)
   \<and> (current_course_of s = Inr (JStr c) \<and> c \<noteq> []
        \<and> course_files s (notes_path (sanitize_filename c)) = Some Malformed
      \<longrightarrow> cmd_sync env s = (Inl JSONDecodeError, s) \<and> cmd_list number s = (Inl JSONDecodeError, s))"
  by (auto simp: load_global_config_def load_notes_or_empty_def load_course_config_def
      cmd_sync_def cmd_list_def)

text \<open>
  Claim C3. The global configuration falls back to its default when its file is missing
  or malformed, a missing course configuration is \<^verbatim>\<open>None\<close> and a malformed one raises.
  A malformed notes file is the empty mapping where \<^verbatim>\<open>cmd_new\<close> reads it, but
  \<^verbatim>\<open>cmd_sync\<close> and \<^verbatim>\<open>cmd_list\<close> read the same file without the guard and end with
  \<^verbatim>\<open>JSONDecodeError\<close>.
\<close>

theorem malformed_notes_file:
  "load_global_config (s_broken\<lparr>config_file := None\<rparr>) = JObj [(''current_course'', JNull)]
   \<and> load_global_config (s_broken\<lparr>config_file := Some Malformed\<rparr>) = JObj [(''current_course'', JNull)]
   \<and> load_course_config s_broken (JStr ''French'') = Inr JNull
   \<and> load_course_config s_broken (JStr ''Old'') = Inl JSONDecodeError
   \<and> load_notes_or_empty s_broken ''french'' = JObj []
   \<and> cmd_sync env_ok s_broken = (Inl JSONDecodeError, s_broken)
   \<and> cmd_list 5 s_broken = (Inl JSONDecodeError, s_broken)"
  using load_tolerance [of "s_broken\<lparr>config_file := None\<rparr>" "''french''" "''French''" env_ok 5]
    load_tolerance [of "s_broken\<lparr>config_file := Some Malformed\<rparr>" "''french''" "''French''" env_ok 5]
    load_tolerance [of s_broken "''french''" "''French''" env_ok 5]
    load_tolerance [of s_broken "''french''" "''Old''" env_ok 5]
  by (simp add: s_broken_def state_eval)

section \<open>Evaluation of the commands on concrete states\<close>


lemmas sync_eval = cmd_sync_def is_unsynced_def push_note_def target_deck_def build_fields_def
  fields_set_def py_item2_def anki_request_def mark_synced_def synced_count_def

lemmas example_eval = s_notes_def french_config_def new_course_config_def env_ok_def



lemma cmd_sync_example:
  "cmd_sync env_ok s_notes =
     (Inr (SyncComplete [(''merci'', None)] 1 1),
      s_notes\<lparr>course_files := (course_files s_notes)(''french_notes.json'' \<mapsto> Parsed (JObj [
           (''bonjour'', JObj [(''term'', JStr ''bonjour''), (''synced'', JBool True)]),
           (''merci'', JObj [(''term'', JStr ''merci''), (''synced'', JBool True)])])),
        anki_log := [CreateDeck (Deck (JStr ''French'')), CreateDeck (Deck (JStr ''French'')),
          AddNote (Deck (JStr ''French'')) (JStr ''French (Notes)'')
            [(JStr ''Term'', JStr ''merci''), (JStr ''Example'', JStr []), (JStr ''Notes'', JStr []),
             (JStr ''Translation'', JStr []), (JStr ''Example Explanation'', JStr [])] [''french'']]\<rparr>)"
  by (simp add: sync_eval state_eval example_eval)

section \<open>What the commands do to a synced note\<close>






lemma py_items_Inr: "py_items j = Inr kvs \<longleftrightarrow> j = JObj kvs"
  by (cases j) auto



















section \<open>The synchronisation batch\<close>

lemmas example_eval2 = example_eval s_batch_def env_flaky_def env_refuse_def

lemma dict_set_idem: "dict_set (dict_set kvs k v) k v = dict_set kvs k v"
  by (induction kvs) auto

lemma set_synced_idem: "set_synced (set_synced n) = set_synced n"
  by (cases n) (simp_all add: set_synced_def dict_set_idem)

lemma keys_mark_all: "map fst (mark_all ts nd) = map fst nd"
  by (simp add: mark_all_def comp_def)

lemma map_of_mark_all:
  "map_of (mark_all ts nd) t =
     (if t \<in> set ts then map_option set_synced (map_of nd t) else map_of nd t)"
  by (induction nd) (auto simp: mark_all_def)

lemma mark_all_mark_all:
  "mark_all ts (mark_all [t] nd) = mark_all (t # ts) nd"
  by (auto simp: mark_all_def set_synced_idem)

lemma mark_all_Nil: "mark_all [] nd = nd"
  by (simp add: mark_all_def)

lemma dict_set_mark:
  "distinct (map fst nd) \<Longrightarrow> map_of nd t = Some n \<Longrightarrow>
     dict_set nd t (set_synced n) = mark_all [t] nd"
proof (induction nd)
  case Nil
  then show ?case by simp
next
  case (Cons p nd)
  show ?case
  proof (cases "fst p = t")
    case True
    with Cons.prems have "snd p = n" by (cases p) simp
    moreover from True Cons.prems(1) have "t \<notin> fst ` set nd" by auto
    then have "mark_all [t] nd = nd"
      by (induction nd) (auto simp: mark_all_def)
    ultimately show ?thesis using True by (cases p) (simp add: mark_all_def)
  next
    case False
    with Cons.prems have "map_of nd t = Some n" by (cases p) (simp split: if_splits)
    with Cons.IH Cons.prems(1) have "dict_set nd t (set_synced n) = mark_all [t] nd" by simp
    with False show ?thesis by (cases p) (simp add: mark_all_def)
  qed
qed

lemma mark_synced_mark_all:
  assumes "distinct (map fst nd)" and "map_of nd t = Some (JObj kvs)"
  shows "mark_synced nd t = Inr (mark_all [t] nd)"
  using dict_set_mark [OF assms] assms(2) by (simp add: mark_synced_def set_synced_def)

lemma succeeded_Cons:
  "succeeded ((t, Inl e) # rs) = succeeded rs" "succeeded ((t, Inr u) # rs) = t # succeeded rs"
  by (simp_all add: succeeded_def)

lemma sync_loop_push_all:
  assumes "distinct (map fst nd)"
    and "\<forall>p \<in> set unsynced. \<exists>kvs. map_of nd (fst p) = Some (JObj kvs)"
  shows "sync_loop env cc dn tag unsynced nd log =
     (map report_of (fst (push_all env cc dn tag unsynced log)),
      mark_all (succeeded (fst (push_all env cc dn tag unsynced log))) nd,
      snd (push_all env cc dn tag unsynced log))"
  using assms
proof (induction unsynced arbitrary: nd log)
  case Nil
  then show ?case by (simp add: succeeded_def mark_all_Nil)
next
  case (Cons p rest)
  obtain t n where p: "p = (t, n)" by (cases p)
  obtain r log1 where push: "push_note env cc dn tag t n log = (r, log1)"
    by (cases "push_note env cc dn tag t n log")
  obtain rs log2 where pa: "push_all env cc dn tag rest log1 = (rs, log2)"
    by (cases "push_all env cc dn tag rest log1")
  from Cons.prems(2) have rest: "\<forall>p \<in> set rest. \<exists>kvs. map_of nd (fst p) = Some (JObj kvs)" by simp
  show ?case
  proof (cases r)
    case (Inl e)
    have "sync_loop env cc dn tag rest nd log1 = (map report_of rs, mark_all (succeeded rs) nd, log2)"
      using Cons.IH [OF Cons.prems(1) rest, of log1] pa by simp
    with p push pa Inl show ?thesis by (simp add: report_of_def succeeded_Cons)
  next
    case (Inr u)
    from Cons.prems(2) p obtain kvs where kvs: "map_of nd t = Some (JObj kvs)" by auto
    have ms: "mark_synced nd t = Inr (mark_all [t] nd)"
      using mark_synced_mark_all [OF Cons.prems(1) kvs] .
    have d1: "distinct (map fst (mark_all [t] nd))"
      using Cons.prems(1) by (simp add: keys_mark_all)
    have r1: "\<forall>p \<in> set rest. \<exists>kvs. map_of (mark_all [t] nd) (fst p) = Some (JObj kvs)"
      using rest by (auto simp: map_of_mark_all set_synced_def)
    have "sync_loop env cc dn tag rest (mark_all [t] nd) log1 =
        (map report_of rs, mark_all (succeeded rs) (mark_all [t] nd), log2)"
      using Cons.IH [OF d1 r1, of log1] pa by simp
    with p push pa Inr ms show ?thesis
      by (simp add: report_of_def succeeded_Cons mark_all_mark_all)
  qed
qed

lemma push_all_terms: "map fst (fst (push_all env cc dn tag unsynced log)) = map fst unsynced"
proof (induction unsynced arbitrary: log)
  case Nil
  then show ?case by simp
next
  case (Cons p rest)
  obtain t n where p: "p = (t, n)" by (cases p)
  obtain r log1 where push: "push_note env cc dn tag t n log = (r, log1)"
    by (cases "push_note env cc dn tag t n log")
  obtain rs log2 where pa: "push_all env cc dn tag rest log1 = (rs, log2)"
    by (cases "push_all env cc dn tag rest log1")
  from Cons.IH [of log1] pa have "map fst rs = map fst rest" by simp
  with p push pa show ?case by simp
qed

lemma is_unsynced_Inr:
  "is_unsynced v = Inr u \<Longrightarrow> \<exists>kvs. v = JObj kvs"
  by (cases v) (auto simp: is_unsynced_def py_get_default_def)

lemma unsynced_of_filter:
  "unsynced_of nd = Inr unsynced \<Longrightarrow>
     unsynced = filter (\<lambda>p. is_unsynced (snd p) = Inr True) nd
     \<and> (\<forall>p \<in> set nd. \<exists>kvs. snd p = JObj kvs)"
proof (induction nd arbitrary: unsynced)
  case Nil
  then show ?case by simp
next
  case (Cons p nd)
  obtain k v where p: "p = (k, v)" by (cases p)
  from Cons.prems p obtain u rest where u: "is_unsynced v = Inr u"
    and rest: "unsynced_of nd = Inr rest" and un: "unsynced = (if u then (k, v) # rest else rest)"
    by (auto simp: py_bind_eq_Inr)
  from Cons.IH [OF rest] u un p is_unsynced_Inr [OF u] show ?case by auto
qed


lemma cmd_sync_run:
  assumes "current_course_of s = Inr (JStr c)" and "c \<noteq> []"
    and "course_files s (notes_path (sanitize_filename c)) = Some (Parsed (JObj nd))"
    and "unsynced_of nd = Inr unsynced" and "unsynced \<noteq> []"
    and "anki_module env"
    and "load_course_config s (JStr c) = Inr cc"
    and "py_item2 cc ''anki'' ''deck_name'' = Inr dn"
    and "anki_accepts env (anki_log s) (CreateDeck (Deck dn))"
    and "sync_loop env cc dn (sanitize_filename c) unsynced nd (anki_log s @ [CreateDeck (Deck dn)])
           = (reports, nd', log')"
  shows "cmd_sync env s =
     (Inr (SyncComplete reports (synced_count reports) (length unsynced)),
      s\<lparr>course_files := (course_files s)(notes_path (sanitize_filename c) \<mapsto> Parsed (JObj nd')),
        anki_log := log'\<rparr>)"
  using assms by (simp add: cmd_sync_def anki_request_def)

lemma synced_count_reports:
  "synced_count (map report_of attempts) = length (succeeded attempts)"
  by (induction attempts) (auto simp: synced_count_def report_of_def succeeded_def split: sum.splits)

text \<open>
  Claim C2. In a state where \<^verbatim>\<open>cmd_sync\<close> reaches its loop (a course is selected, its
  notes file holds an object with at least one unsynced note, the course configuration
  names a deck and the flashcard application creates it), the command always ends with
  its summary, whatever the pushes do. Every unsynced note is pushed, in the order of
  the file, also after a failure; the line printed for a note carries the exception when
  its push failed; the notes file is written once, with the flag set on exactly the notes
  whose push succeeded and every other note as it was; and the summary counts the
  successes against the number of unsynced notes.
\<close>

theorem sync_batch:
  assumes "current_course_of s = Inr (JStr c)" and "c \<noteq> []"
    and "course_files s (notes_path (sanitize_filename c)) = Some (Parsed (JObj nd))"
    and "distinct (map fst nd)"
    and "unsynced_of nd = Inr unsynced" and "unsynced \<noteq> []"
    and "anki_module env"
    and "load_course_config s (JStr c) = Inr cc"
    and "py_item2 cc ''anki'' ''deck_name'' = Inr dn"
    and "anki_accepts env (anki_log s) (CreateDeck (Deck dn))"
    and "push_all env cc dn (sanitize_filename c) unsynced (anki_log s @ [CreateDeck (Deck dn)])
           = (attempts, log')"
  shows "cmd_sync env s =
     (Inr (SyncComplete (map report_of attempts) (length (succeeded attempts)) (length unsynced)),
      s\<lparr>course_files := (course_files s)
           (notes_path (sanitize_filename c) \<mapsto> Parsed (JObj (mark_all (succeeded attempts) nd))),
        anki_log := log'\<rparr>)
     \<and> map fst attempts = map fst unsynced
     \<and> unsynced = filter (\<lambda>p. is_unsynced (snd p) = Inr True) nd
     \<and> (\<forall>t. map_of (mark_all (succeeded attempts) nd) t =
            (if t \<in> set (succeeded attempts) then map_option set_synced (map_of nd t)
             else map_of nd t))"
proof -
  from unsynced_of_filter [OF assms(5)]
  have filt: "unsynced = filter (\<lambda>p. is_unsynced (snd p) = Inr True) nd"
    and objs: "\<forall>p \<in> set nd. \<exists>kvs. snd p = JObj kvs" by simp_all
  have "\<forall>p \<in> set unsynced. \<exists>kvs. map_of nd (fst p) = Some (JObj kvs)"
  proof
    fix p assume "p \<in> set unsynced"
    with filt have "p \<in> set nd" by auto
    with assms(4) have "map_of nd (fst p) = Some (snd p)" by (cases p) simp
    moreover from objs \<open>p \<in> set nd\<close> obtain kvs where "snd p = JObj kvs" by blast
    ultimately show "\<exists>kvs. map_of nd (fst p) = Some (JObj kvs)" by simp
  qed
  from sync_loop_push_all [OF assms(4) this, of env cc dn "sanitize_filename c" "anki_log s @ [CreateDeck (Deck dn)]"]
    assms(11)
  have loop: "sync_loop env cc dn (sanitize_filename c) unsynced nd (anki_log s @ [CreateDeck (Deck dn)])
      = (map report_of attempts, mark_all (succeeded attempts) nd, log')" by simp
  have "cmd_sync env s =
     (Inr (SyncComplete (map report_of attempts) (length (succeeded attempts)) (length unsynced)),
      s\<lparr>course_files := (course_files s)
           (notes_path (sanitize_filename c) \<mapsto> Parsed (JObj (mark_all (succeeded attempts) nd))),
        anki_log := log'\<rparr>)"
    using cmd_sync_run [OF assms(1,2,3,5,6,7,8,9,10) loop] by (simp add: synced_count_reports)
  moreover have "map fst attempts = map fst unsynced"
    using push_all_terms [of env cc dn "sanitize_filename c" unsynced "anki_log s @ [CreateDeck (Deck dn)]"]
      assms(11) by simp
  ultimately show ?thesis using filt by (simp add: map_of_mark_all)
qed

theorem sync_batch_witness:
  "cmd_sync env_flaky s_batch =
     (Inr (SyncComplete [(''merci'', Some ExternalError), (''salut'', None)] 1 2),
      s_batch\<lparr>course_files := (course_files s_batch)(''french_notes.json'' \<mapsto> Parsed (JObj [
           (''bonjour'', JObj [(''term'', JStr ''bonjour''), (''synced'', JBool True)]),
           (''merci'', JObj [(''translation'', JStr ''thanks'')]),
           (''salut'', JObj [(''term'', JStr ''salut''), (''level'', JStr ''Beginner''),
                            (''synced'', JBool True)])])),
        anki_log := [CreateDeck (Deck (JStr ''French'')),
          CreateDeck (Deck (JStr ''French'')),
          AddNote (Deck (JStr ''French'')) (JStr ''French (Notes)'')
            [(JStr ''Term'', JStr ''merci''), (JStr ''Example'', JStr []), (JStr ''Notes'', JStr []),
             (JStr ''Translation'', JStr ''thanks''), (JStr ''Example Explanation'', JStr [])] [''french''],
          CreateDeck (SubDeck (JStr ''French'') (JStr ''Beginner'')),
          AddNote (SubDeck (JStr ''French'') (JStr ''Beginner'')) (JStr ''French (Notes)'')
            [(JStr ''Term'', JStr ''salut''), (JStr ''Example'', JStr []), (JStr ''Notes'', JStr []),
             (JStr ''Translation'', JStr []), (JStr ''Example Explanation'', JStr [])] [''french'']]\<rparr>)"
proof -
  let ?nd = "[(''bonjour'', JObj [(''term'', JStr ''bonjour''), (''synced'', JBool True)]),
           (''merci'', JObj [(''translation'', JStr ''thanks'')]),
           (''salut'', JObj [(''term'', JStr ''salut''), (''level'', JStr ''Beginner''),
                            (''synced'', JBool False)])]"
  let ?un = "[(''merci'', JObj [(''translation'', JStr ''thanks'')]),
           (''salut'', JObj [(''term'', JStr ''salut''), (''level'', JStr ''Beginner''),
                            (''synced'', JBool False)])]"
  let ?log = "[CreateDeck (Deck (JStr ''French'')),
          CreateDeck (Deck (JStr ''French'')),
          AddNote (Deck (JStr ''French'')) (JStr ''French (Notes)'')
            [(JStr ''Term'', JStr ''merci''), (JStr ''Example'', JStr []), (JStr ''Notes'', JStr []),
             (JStr ''Translation'', JStr ''thanks''), (JStr ''Example Explanation'', JStr [])] [''french''],
          CreateDeck (SubDeck (JStr ''French'') (JStr ''Beginner'')),
          AddNote (SubDeck (JStr ''French'') (JStr ''Beginner'')) (JStr ''French (Notes)'')
            [(JStr ''Term'', JStr ''salut''), (JStr ''Example'', JStr []), (JStr ''Notes'', JStr []),
             (JStr ''Translation'', JStr []), (JStr ''Example Explanation'', JStr [])] [''french'']]"
  have h1: "current_course_of s_batch = Inr (JStr ''French'')"
    by (simp add: state_eval s_batch_def)
  have h2: "''French'' \<noteq> []" by simp
  have h3: "course_files s_batch (notes_path (sanitize_filename ''French'')) = Some (Parsed (JObj ?nd))"
    by (simp add: state_eval s_batch_def)
  have h4: "distinct (map fst ?nd)" by simp
  have h5: "unsynced_of ?nd = Inr ?un" by (simp add: is_unsynced_def py_get_default_def)
  have h6: "?un \<noteq> []" by simp
  have h7: "anki_module env_flaky" by (simp add: example_eval2)
  have h8: "load_course_config s_batch (JStr ''French'') = Inr french_config"
    by (simp add: state_eval s_batch_def)
  have h9: "py_item2 french_config ''anki'' ''deck_name'' = Inr (JStr ''French'')"
    by (simp add: py_item2_def example_eval2)
  have h10: "anki_accepts env_flaky (anki_log s_batch) (CreateDeck (Deck (JStr ''French'')))"
    by (simp add: example_eval2)
  have h11: "push_all env_flaky french_config (JStr ''French'') (sanitize_filename ''French'') ?un
      (anki_log s_batch @ [CreateDeck (Deck (JStr ''French''))])
      = ([(''merci'', Inl ExternalError), (''salut'', Inr ())], ?log)"
    by (simp add: sync_eval state_eval example_eval2)
  from sync_batch [OF h1 h2 h3 h4 h5 h6 h7 h8 h9 h10 h11]
  show ?thesis
    by (simp add: report_of_def succeeded_def mark_all_def set_synced_def state_eval)
qed

section \<open>A second synchronisation\<close>

lemma cmd_sync_complete:
  "fst (cmd_sync env s) = Inr (SyncComplete reports k n) \<longrightarrow>
     (\<exists>cur name nd unsynced cc dn nd' log'.
        current_course_of s = Inr cur \<and> truthy cur \<and> py_sanitize cur = Inr name
        \<and> course_files s (notes_path name) = Some (Parsed (JObj nd))
        \<and> unsynced_of nd = Inr unsynced \<and> unsynced \<noteq> [] \<and> anki_module env
        \<and> load_course_config s cur = Inr cc \<and> py_item2 cc ''anki'' ''deck_name'' = Inr dn
        \<and> anki_accepts env (anki_log s) (CreateDeck (Deck dn))
        \<and> sync_loop env cc dn name unsynced nd (anki_log s @ [CreateDeck (Deck dn)]) = (reports, nd', log')
        \<and> k = synced_count reports \<and> n = length unsynced
        \<and> snd (cmd_sync env s) =
             s\<lparr>course_files := (course_files s)(notes_path name \<mapsto> Parsed (JObj nd')),
               anki_log := log'\<rparr>)"
  by (simp add: cmd_sync_def anki_request_def py_bind_eq_Inr py_items_Inr
      split: sum.split option.split file_content.split prod.split)

lemma filter_all: "length (filter P xs) = length xs \<Longrightarrow> filter P xs = xs"
proof (induction xs)
  case Nil
  then show ?case by simp
next
  case (Cons x xs)
  show ?case
  proof (cases "P x")
    case True
    with Cons show ?thesis by simp
  next
    case False
    with Cons.prems have "length (filter P xs) = Suc (length xs)" by simp
    with length_filter_le [of P xs] show ?thesis by simp
  qed
qed

lemma all_succeeded:
  "length (succeeded attempts) = length attempts \<Longrightarrow> succeeded attempts = map fst attempts"
  by (simp add: succeeded_def filter_all)

lemma is_unsynced_set_synced:
  "is_unsynced v = Inr b \<Longrightarrow> is_unsynced (set_synced v) = Inr False"
  by (cases v) (auto simp: is_unsynced_def py_get_default_def set_synced_def map_of_dict_set)

lemma unsynced_marked:
  "unsynced_of nd = Inr u \<Longrightarrow> set (map fst u) \<subseteq> set ts \<Longrightarrow> unsynced_of (mark_all ts nd) = Inr []"
proof (induction nd arbitrary: u)
  case Nil
  then show ?case by (simp add: mark_all_def)
next
  case (Cons p nd)
  obtain k v where p: "p = (k, v)" by (cases p)
  from Cons.prems(1) p obtain b rest where b: "is_unsynced v = Inr b"
    and rest: "unsynced_of nd = Inr rest" and u: "u = (if b then (k, v) # rest else rest)"
    by (auto simp: py_bind_eq_Inr)
  from u Cons.prems(2) have sub: "set (map fst rest) \<subseteq> set ts" by (auto split: if_splits)
  have tail: "unsynced_of (mark_all ts nd) = Inr []" using Cons.IH [OF rest sub] .
  have "is_unsynced (if k \<in> set ts then set_synced v else v) = Inr False"
  proof (cases "k \<in> set ts")
    case True
    then show ?thesis using is_unsynced_set_synced [OF b] by simp
  next
    case False
    with u Cons.prems(2) have "\<not> b" by auto
    with b False show ?thesis by simp
  qed
  moreover have "mark_all ts (p # nd) = (k, if k \<in> set ts then set_synced v else v) # mark_all ts nd"
    by (simp add: mark_all_def p)
  ultimately show ?case using tail by simp
qed

text \<open>
  Claim C4, as the code has it. When a synchronisation has pushed every unsynced note
  successfully (its summary is \<open>n/n\<close>), a second one right after it finds no unsynced
  note: it reports that all notes are synced and makes no request to the flashcard
  application, whatever the application would answer.
\<close>

theorem second_sync_no_calls:
  assumes "current_course_of s = Inr (JStr c)"
    and "course_files s (notes_path (sanitize_filename c)) = Some (Parsed (JObj nd))"
    and "distinct (map fst nd)"
    and "cmd_sync env s = (Inr (SyncComplete reports n n), s')"
  shows "cmd_sync env' s' = (Inr AllSynced, s') \<and> anki_log (snd (cmd_sync env' s')) = anki_log s'"
proof -
  from assms(4) have "fst (cmd_sync env s) = Inr (SyncComplete reports n n)" by simp
  with cmd_sync_complete [of env s reports n n]
  obtain cur name nd0 unsynced cc dn nd' log' where
    cur: "current_course_of s = Inr cur" and tr: "truthy cur" and name: "py_sanitize cur = Inr name"
    and stored: "course_files s (notes_path name) = Some (Parsed (JObj nd0))"
    and un: "unsynced_of nd0 = Inr unsynced"
    and loop: "sync_loop env cc dn name unsynced nd0 (anki_log s @ [CreateDeck (Deck dn)]) = (reports, nd', log')"
    and cnt: "n = synced_count reports" and len: "n = length unsynced"
    and st: "snd (cmd_sync env s) =
             s\<lparr>course_files := (course_files s)(notes_path name \<mapsto> Parsed (JObj nd')),
               anki_log := log'\<rparr>"
    by blast
  from cur assms(1) have c: "cur = JStr c" by simp
  with name have nm: "name = sanitize_filename c" by simp
  with stored assms(2) have nd0: "nd0 = nd" by simp
  from st assms(4) have s': "s' = s\<lparr>course_files := (course_files s)(notes_path name \<mapsto> Parsed (JObj nd')),
               anki_log := log'\<rparr>" by simp
  from unsynced_of_filter [OF un]
  have filt: "unsynced = filter (\<lambda>p. is_unsynced (snd p) = Inr True) nd"
    and objs: "\<forall>p \<in> set nd. \<exists>kvs. snd p = JObj kvs" by (simp_all add: nd0)
  have "\<forall>p \<in> set unsynced. \<exists>kvs. map_of nd (fst p) = Some (JObj kvs)"
  proof
    fix p assume "p \<in> set unsynced"
    with filt have "p \<in> set nd" by auto
    with assms(3) have "map_of nd (fst p) = Some (snd p)" by (cases p) simp
    moreover from objs \<open>p \<in> set nd\<close> obtain kvs where "snd p = JObj kvs" by blast
    ultimately show "\<exists>kvs. map_of nd (fst p) = Some (JObj kvs)" by simp
  qed
  from sync_loop_push_all [OF assms(3) this, of env cc dn name "anki_log s @ [CreateDeck (Deck dn)]"] loop
  obtain attempts where reps: "reports = map report_of attempts"
    and nd': "nd' = mark_all (succeeded attempts) nd"
    and att: "attempts = fst (push_all env cc dn name unsynced (anki_log s @ [CreateDeck (Deck dn)]))"
    by (simp add: nd0)
  from att have terms: "map fst attempts = map fst unsynced" by (simp add: push_all_terms)
  then have "length attempts = length unsynced" by (metis length_map)
  with cnt len reps have "length (succeeded attempts) = length attempts"
    by (simp add: synced_count_reports)
  then have "succeeded attempts = map fst unsynced" using all_succeeded terms by simp
  with nd' have "unsynced_of nd' = Inr []"
    using unsynced_marked [of nd unsynced "map fst unsynced"] un nd0 by simp
  moreover have "current_course_of s' = Inr cur"
    using cur by (simp add: s' current_course_of_def load_global_config_def)
  moreover have "course_files s' (notes_path name) = Some (Parsed (JObj nd'))"
    by (simp add: s')
  ultimately have "cmd_sync env' s' = (Inr AllSynced, s')"
    using tr name by (simp add: cmd_sync_def)
  then show ?thesis by simp
qed

theorem second_sync_no_calls_witness:
  "cmd_sync env_refuse (snd (cmd_sync env_ok s_notes)) = (Inr AllSynced, snd (cmd_sync env_ok s_notes))"
proof -
  have "current_course_of s_notes = Inr (JStr ''French'')"
    by (simp add: state_eval s_notes_def)
  moreover have "course_files s_notes (notes_path (sanitize_filename ''French'')) = Some (Parsed (JObj [
           (''bonjour'', JObj [(''term'', JStr ''bonjour''), (''synced'', JBool True)]),
           (''merci'', JObj [(''term'', JStr ''merci''), (''synced'', JBool False)])]))"
    by (simp add: state_eval s_notes_def)
  moreover have "distinct (map fst [
           (''bonjour'', JObj [(''term'', JStr ''bonjour''), (''synced'', JBool True)]),
           (''merci'', JObj [(''term'', JStr ''merci''), (''synced'', JBool False)])])"
    by simp
  moreover have "cmd_sync env_ok s_notes =
      (Inr (SyncComplete [(''merci'', None)] 1 1), snd (cmd_sync env_ok s_notes))"
    by (simp add: cmd_sync_example)
  ultimately show ?thesis using second_sync_no_calls by blast
qed

text \<open>The claim as it is written fails when a push failed in the first run: the note
  stays unsynced, and the second run creates the decks and pushes the note again.\<close>

lemma cmd_sync_refused:
  "cmd_sync env_refuse s_notes =
     (Inr (SyncComplete [(''merci'', Some ExternalError)] 0 1),
      s_notes\<lparr>course_files := (course_files s_notes)(''french_notes.json'' \<mapsto> Parsed (JObj [
           (''bonjour'', JObj [(''term'', JStr ''bonjour''), (''synced'', JBool True)]),
           (''merci'', JObj [(''term'', JStr ''merci''), (''synced'', JBool False)])])),
        anki_log := [CreateDeck (Deck (JStr ''French'')), CreateDeck (Deck (JStr ''French'')),
          AddNote (Deck (JStr ''French'')) (JStr ''French (Notes)'')
            [(JStr ''Term'', JStr ''merci''), (JStr ''Example'', JStr []), (JStr ''Notes'', JStr []),
             (JStr ''Translation'', JStr []), (JStr ''Example Explanation'', JStr [])] [''french'']]\<rparr>)"
  by (simp add: sync_eval state_eval example_eval2)

theorem second_sync_retries_failed_note:
  "fst (cmd_sync env_refuse s_notes) = Inr (SyncComplete [(''merci'', Some ExternalError)] 0 1)
   \<and> length (anki_log (snd (cmd_sync env_refuse s_notes))) = 3
   \<and> length (anki_log (snd (cmd_sync env_refuse (snd (cmd_sync env_refuse s_notes))))) = 6"
  by (simp add: cmd_sync_refused) (simp add: sync_eval state_eval example_eval2)

section \<open>The stored note\<close>






section \<open>Listing recent notes\<close>














section \<open>The payload of the reply\<close>
































end
